theory Spec2Isabelle
  imports Main
begin

section \<open>Data model\<close>

text \<open>
  The types of \<^verbatim>\<open>src/main.tsx\<close>. \<^verbatim>\<open>UserRole\<close> and \<^verbatim>\<open>Page\<close> are closed string unions
  and become datatypes; an interface becomes a record. A state cell of type
  \<^verbatim>\<open>string | null\<close> is a \<open>string option\<close>, and JavaScript's truthiness test on it
  (\<^verbatim>\<open>if (selectedTaskId)\<close>, \<^verbatim>\<open>if (error)\<close>, \<^verbatim>\<open>!data.title\<close>) is \<open>truthy\<close>: \<^verbatim>\<open>null\<close>,
  \<^verbatim>\<open>undefined\<close> and the empty string are falsy, every other string is truthy.
\<close>

datatype UserRole = user_role | admin_role

record User =
  user_id :: string
  user_name :: string
  role :: UserRole

datatype Page =
    myTasks
  | taskDetails
  | myGroups
  | groupDetails
  | adminCreateTask
  | adminCreateGroup
  | adminAllGroups

definition truthy :: "string option \<Rightarrow> bool" where
  "truthy v = (case v of None \<Rightarrow> False | Some s \<Rightarrow> s \<noteq> [])"

definition str_of :: "string option \<Rightarrow> string" where
  "str_of v = (case v of None \<Rightarrow> [] | Some s \<Rightarrow> s)"

text \<open>
  The six \<^verbatim>\<open>useState\<close> cells of the \<^verbatim>\<open>App\<close> component, with their initial values.
\<close>

record AppState =
  currentPage :: Page
  user :: "User option"
  apiBaseUrl :: string
  error :: "string option"
  selectedTaskId :: "string option"
  selectedGroupId :: "string option"

definition initialApp :: AppState where
  "initialApp =
     \<lparr>currentPage = myTasks, user = None, apiBaseUrl = [], error = None,
      selectedTaskId = None, selectedGroupId = None\<rparr>"

subsection \<open>Message literals\<close>

text \<open>
  The user-visible messages of the source are Russian string literals. Each is given
  here as the UTF-8 bytes of the literal; the comment gives its meaning.
\<close>

definition configMissingMessage :: string where
  \<comment> \<open>"Configuration error: parameter 'replyip' not found in URL."\<close>
  "configMissingMessage =
     [CHR 0xD0, CHR 0x9E, CHR 0xD1, CHR 0x88, CHR 0xD0, CHR 0xB8, CHR 0xD0, CHR 0xB1,
      CHR 0xD0, CHR 0xBA, CHR 0xD0, CHR 0xB0, CHR 0x20, CHR 0xD0, CHR 0xBA, CHR 0xD0,
      CHR 0xBE, CHR 0xD0, CHR 0xBD, CHR 0xD1, CHR 0x84, CHR 0xD0, CHR 0xB8, CHR 0xD0,
      CHR 0xB3, CHR 0xD1, CHR 0x83, CHR 0xD1, CHR 0x80, CHR 0xD0, CHR 0xB0, CHR 0xD1,
      CHR 0x86, CHR 0xD0, CHR 0xB8, CHR 0xD0, CHR 0xB8, CHR 0x3A, CHR 0x20, CHR 0xD0,
      CHR 0xBF, CHR 0xD0, CHR 0xB0, CHR 0xD1, CHR 0x80, CHR 0xD0, CHR 0xB0, CHR 0xD0,
      CHR 0xBC, CHR 0xD0, CHR 0xB5, CHR 0xD1, CHR 0x82, CHR 0xD1, CHR 0x80, CHR 0x20,
      CHR 0x27]
     @ ''replyip'' @ [CHR 0x27, CHR 0x20] @
     [CHR 0xD0, CHR 0xBD, CHR 0xD0, CHR 0xB5, CHR 0x20, CHR 0xD0, CHR 0xBD, CHR 0xD0,
      CHR 0xB0, CHR 0xD0, CHR 0xB9, CHR 0xD0, CHR 0xB4, CHR 0xD0, CHR 0xB5, CHR 0xD0,
      CHR 0xBD, CHR 0x20, CHR 0xD0, CHR 0xB2, CHR 0x20]
     @ ''URL.''"

definition urlParsePrefix :: string where
  \<comment> \<open>"URL parsing error: "\<close>
  "urlParsePrefix =
     [CHR 0xD0, CHR 0x9E, CHR 0xD1, CHR 0x88, CHR 0xD0, CHR 0xB8, CHR 0xD0, CHR 0xB1,
      CHR 0xD0, CHR 0xBA, CHR 0xD0, CHR 0xB0, CHR 0x20, CHR 0xD0, CHR 0xBF, CHR 0xD0,
      CHR 0xB0, CHR 0xD1, CHR 0x80, CHR 0xD1, CHR 0x81, CHR 0xD0, CHR 0xB8, CHR 0xD0,
      CHR 0xBD, CHR 0xD0, CHR 0xB3, CHR 0xD0, CHR 0xB0, CHR 0x20]
     @ ''URL: ''"

definition authErrorPrefix :: string where
  \<comment> \<open>"Authentication error: "\<close>
  "authErrorPrefix =
     [CHR 0xD0, CHR 0x9E, CHR 0xD1, CHR 0x88, CHR 0xD0, CHR 0xB8, CHR 0xD0, CHR 0xB1,
      CHR 0xD0, CHR 0xBA, CHR 0xD0, CHR 0xB0, CHR 0x20, CHR 0xD0, CHR 0xB0, CHR 0xD1,
      CHR 0x83, CHR 0xD1, CHR 0x82, CHR 0xD0, CHR 0xB5, CHR 0xD0, CHR 0xBD, CHR 0xD1,
      CHR 0x82, CHR 0xD0, CHR 0xB8, CHR 0xD1, CHR 0x84, CHR 0xD0, CHR 0xB8, CHR 0xD0,
      CHR 0xBA, CHR 0xD0, CHR 0xB0, CHR 0xD1, CHR 0x86, CHR 0xD0, CHR 0xB8, CHR 0xD0,
      CHR 0xB8]
     @ '': ''"

definition requiredFieldsMessage :: string where
  \<comment> \<open>"Please fill in all required fields."\<close>
  "requiredFieldsMessage =
     [CHR 0xD0, CHR 0x9F, CHR 0xD0, CHR 0xBE, CHR 0xD0, CHR 0xB6, CHR 0xD0, CHR 0xB0,
      CHR 0xD0, CHR 0xBB, CHR 0xD1, CHR 0x83, CHR 0xD0, CHR 0xB9, CHR 0xD1, CHR 0x81,
      CHR 0xD1, CHR 0x82, CHR 0xD0, CHR 0xB0, CHR 0x2C, CHR 0x20, CHR 0xD0, CHR 0xB7,
      CHR 0xD0, CHR 0xB0, CHR 0xD0, CHR 0xBF, CHR 0xD0, CHR 0xBE, CHR 0xD0, CHR 0xBB,
      CHR 0xD0, CHR 0xBD, CHR 0xD0, CHR 0xB8, CHR 0xD1, CHR 0x82, CHR 0xD0, CHR 0xB5,
      CHR 0x20, CHR 0xD0, CHR 0xB2, CHR 0xD1, CHR 0x81, CHR 0xD0, CHR 0xB5, CHR 0x20,
      CHR 0xD0, CHR 0xBE, CHR 0xD0, CHR 0xB1, CHR 0xD1, CHR 0x8F, CHR 0xD0, CHR 0xB7,
      CHR 0xD0, CHR 0xB0, CHR 0xD1, CHR 0x82, CHR 0xD0, CHR 0xB5, CHR 0xD0, CHR 0xBB,
      CHR 0xD1, CHR 0x8C, CHR 0xD0, CHR 0xBD, CHR 0xD1, CHR 0x8B, CHR 0xD0, CHR 0xB5,
      CHR 0x20, CHR 0xD0, CHR 0xBF, CHR 0xD0, CHR 0xBE, CHR 0xD0, CHR 0xBB, CHR 0xD1,
      CHR 0x8F, CHR 0x2E]"

definition groupNameRequiredMessage :: string where
  \<comment> \<open>"The group name is required."\<close>
  "groupNameRequiredMessage =
     [CHR 0xD0, CHR 0x98, CHR 0xD0, CHR 0xBC, CHR 0xD1, CHR 0x8F, CHR 0x20, CHR 0xD0,
      CHR 0xB3, CHR 0xD1, CHR 0x80, CHR 0xD1, CHR 0x83, CHR 0xD0, CHR 0xBF, CHR 0xD0,
      CHR 0xBF, CHR 0xD1, CHR 0x8B, CHR 0x20, CHR 0xD1, CHR 0x8F, CHR 0xD0, CHR 0xB2,
      CHR 0xD0, CHR 0xBB, CHR 0xD1, CHR 0x8F, CHR 0xD0, CHR 0xB5, CHR 0xD1, CHR 0x82,
      CHR 0xD1, CHR 0x81, CHR 0xD1, CHR 0x8F, CHR 0x20, CHR 0xD0, CHR 0xBE, CHR 0xD0,
      CHR 0xB1, CHR 0xD1, CHR 0x8F, CHR 0xD0, CHR 0xB7, CHR 0xD0, CHR 0xB0, CHR 0xD1,
      CHR 0x82, CHR 0xD0, CHR 0xB5, CHR 0xD0, CHR 0xBB, CHR 0xD1, CHR 0x8C, CHR 0xD0,
      CHR 0xBD, CHR 0xD1, CHR 0x8B, CHR 0xD0, CHR 0xBC, CHR 0x2E]"

section \<open>API gateway\<close>

text \<open>
  \<^verbatim>\<open>apiFetch\<close> awaits \<^verbatim>\<open>fetch\<close> and then decodes the \<^verbatim>\<open>Response\<close>. The model starts
  where \<^verbatim>\<open>fetch\<close> has settled: its outcome is either a rejection (a network failure,
  which \<^verbatim>\<open>apiFetch\<close> lets through) or a \<^verbatim>\<open>Response\<close>.

  A \<^verbatim>\<open>Response\<close> is an object of the platform whose body is a stream that can be read
  once. The record keeps what \<^verbatim>\<open>apiFetch\<close> reads of it: the status, the status text, the
  \<^verbatim>\<open>content-type\<close> header, the body (\<open>None\<close> for a null body) and whether the body has
  been read. \<^verbatim>\<open>response.ok\<close> is true for a status from 200 to 299. \<^verbatim>\<open>response.json()\<close>
  and \<^verbatim>\<open>response.text()\<close> reject with a \<^verbatim>\<open>TypeError\<close> when the body is non-null and has
  already been read; otherwise they read the whole body, which marks it as read, and
  \<^verbatim>\<open>json()\<close> then parses it, rejecting with a \<^verbatim>\<open>SyntaxError\<close> when it is not JSON.
\<close>

datatype Json =
    JNull
  | JBool bool
  | JNumber int
  | JString string
  | JArray "Json list"
  | JObject "(string \<times> Json) list"

datatype JsError =
    Error string
  | TypeError
  | SyntaxError

record Response =
  status :: nat
  statusText :: string
  contentType :: "string option"
  body :: "string option"
  bodyUsed :: bool

definition ok :: "Response \<Rightarrow> bool" where
  "ok r = (200 \<le> status r \<and> status r \<le> 299)"

definition unusable :: "Response \<Rightarrow> bool" where
  "unusable r = (body r \<noteq> None \<and> bodyUsed r)"

definition Response_text :: "Response \<Rightarrow> (JsError + string) \<times> Response" where
  "Response_text r =
     (if unusable r then (Inl TypeError, r)
      else (Inr (str_of (body r)), r\<lparr>bodyUsed := (body r \<noteq> None)\<rparr>))"

definition Response_json ::
  "(string \<Rightarrow> Json option) \<Rightarrow> Response \<Rightarrow> (JsError + Json) \<times> Response" where
  "Response_json parse r =
     (if unusable r then (Inl TypeError, r)
      else ((case parse (str_of (body r)) of None \<Rightarrow> Inl SyntaxError | Some j \<Rightarrow> Inr j),
            r\<lparr>bodyUsed := (body r \<noteq> None)\<rparr>))"

text \<open>
  The built-ins \<^verbatim>\<open>apiFetch\<close> calls on the decoded error body are parameters: the JSON
  parser behind \<^verbatim>\<open>response.json()\<close>, \<^verbatim>\<open>JSON.stringify\<close>, and the string conversion of a
  template literal. Of a JSON number \<^verbatim>\<open>apiFetch\<close> reads only whether it is zero, so
  numbers are kept as integers.
\<close>

record Platform =
  JSON_parse :: "string \<Rightarrow> Json option"
  JSON_stringify :: "Json \<Rightarrow> string"
  toString :: "Json \<Rightarrow> string"

fun js_truthy :: "Json \<Rightarrow> bool" where
  "js_truthy JNull = False"
| "js_truthy (JBool b) = b"
| "js_truthy (JNumber n) = (n \<noteq> 0)"
| "js_truthy (JString s) = (s \<noteq> [])"
| "js_truthy (JArray xs) = True"
| "js_truthy (JObject kvs) = True"

text \<open>
  \<^verbatim>\<open>errorData.message\<close>: a property read throws a \<^verbatim>\<open>TypeError\<close> on \<^verbatim>\<open>null\<close>, gives the
  member of an object, and \<^verbatim>\<open>undefined\<close> (\<open>None\<close>) where there is none.
\<close>

fun get_message :: "Json \<Rightarrow> JsError + Json option" where
  "get_message JNull = Inl TypeError"
| "get_message (JObject kvs) = Inr (map_of kvs ''message'')"
| "get_message j = Inr None"

fun show_nat :: "nat \<Rightarrow> string" where
  "show_nat n =
     (if n < 10 then [''0123456789'' ! n]
      else show_nat (n div 10) @ [''0123456789'' ! (n mod 10)])"

declare show_nat.simps [simp del]

definition apiErrorMessage :: "nat \<Rightarrow> string \<Rightarrow> string" where
  "apiErrorMessage st msg = ''API Error ('' @ show_nat st @ ''): '' @ msg"

text \<open>
  The \<^verbatim>\<open>try\<close> block of the error branch never completes normally: \<^verbatim>\<open>response.json()\<close>
  rejects, or the property read throws, or the block's own \<^verbatim>\<open>throw\<close> is reached. So it
  is modelled by the error it raises and the response as it leaves it.
\<close>

definition errorTry :: "Platform \<Rightarrow> Response \<Rightarrow> JsError \<times> Response" where
  "errorTry P r =
     (case Response_json (JSON_parse P) r of
        (Inl e, r') \<Rightarrow> (e, r')
      | (Inr errorData, r') \<Rightarrow>
          (case get_message errorData of
             Inl e \<Rightarrow> (e, r')
           | Inr m \<Rightarrow>
               (Error (apiErrorMessage (status r)
                  (case m of
                     Some v \<Rightarrow> if js_truthy v then toString P v else JSON_stringify P errorData
                   | None \<Rightarrow> JSON_stringify P errorData)),
                r')))"

text \<open>
  The \<^verbatim>\<open>catch\<close> block binds no variable. It reads the response as text and throws.
\<close>

definition errorCatch :: "Response \<Rightarrow> JsError" where
  "errorCatch r =
     (case Response_text r of
        (Inl e, r') \<Rightarrow> e
      | (Inr errorText, r') \<Rightarrow>
          Error (apiErrorMessage (status r)
                   (if errorText \<noteq> [] then errorText else statusText r)))"

fun str_includes :: "string \<Rightarrow> string \<Rightarrow> bool" where
  "str_includes [] t = (t = [])"
| "str_includes (c # cs) t = (take (length t) (c # cs) = t \<or> str_includes cs t)"

text \<open>
  Every exception raised inside the \<^verbatim>\<open>try\<close> block, the block's own \<^verbatim>\<open>throw\<close> included,
  transfers control to the \<^verbatim>\<open>catch\<close> block, which discards it.
\<close>

definition apiFetch :: "Platform \<Rightarrow> JsError + Response \<Rightarrow> JsError + Json option" where
  "apiFetch P fetched =
     (case fetched of
        Inl e \<Rightarrow> Inl e
      | Inr response \<Rightarrow>
          if \<not> ok response then
            (case errorTry P response of (thrown, response') \<Rightarrow> Inl (errorCatch response'))
          else if \<not> truthy (contentType response)
                  \<or> \<not> str_includes (str_of (contentType response)) ''application/json''
          then Inr None
          else (case fst (Response_json (JSON_parse P) response) of
                  Inl e \<Rightarrow> Inl e
                | Inr j \<Rightarrow> Inr (Some j)))"

text \<open>
  The operations of \<^verbatim>\<open>createApiService\<close>, as the requests a controller can issue. Form
  data is the list of its entries.
\<close>

datatype Call =
    fetchUserData
  | fetchUserTasks
  | fetchTaskDetails string
  | fetchUserGroups
  | fetchGroupDetails string
  | createTask "(string \<times> string) list"
  | createGroup "(string \<times> string) list"
  | fetchAllGroups

section \<open>Screen controllers\<close>

subsection \<open>PageTaskDetails\<close>








subsection \<open>PageAdminCreateTask and PageAdminCreateGroup\<close>

text \<open>
  \<^verbatim>\<open>handleSubmit\<close> up to its first \<^verbatim>\<open>await\<close>: the state it leaves and the requests it
  has issued. \<^verbatim>\<open>Object.fromEntries\<close> keeps the last entry of a name, \<^verbatim>\<open>FormData.get\<close>
  returns the first.
\<close>

record FormCtl =
  isLoading :: bool
  formError :: "string option"

definition fromEntries :: "(string \<times> string) list \<Rightarrow> string \<Rightarrow> string option" where
  "fromEntries entries = map_of (rev entries)"

definition handleSubmit :: "(string \<times> string) list \<Rightarrow> FormCtl \<Rightarrow> FormCtl \<times> Call list" where
  "handleSubmit entries c =
     (let c1 = c\<lparr>isLoading := True, formError := None\<rparr>;
          data = fromEntries entries
      in if \<not> truthy (data ''title'') \<or> \<not> truthy (data ''project'')
            \<or> \<not> truthy (data ''group'') \<or> \<not> truthy (data ''assignee'')
         then (c1\<lparr>formError := Some requiredFieldsMessage, isLoading := False\<rparr>, [])
         else (c1, [createTask entries]))"

definition handleSubmitGroup ::
  "(string \<times> string) list \<Rightarrow> FormCtl \<Rightarrow> FormCtl \<times> Call list" where
  "handleSubmitGroup entries c =
     (let c1 = c\<lparr>isLoading := True, formError := None\<rparr>
      in if \<not> truthy (map_of entries ''name'')
         then (c1\<lparr>formError := Some groupNameRequiredMessage, isLoading := False\<rparr>, [])
         else (c1, [createGroup entries]))"

section \<open>Navigation\<close>

text \<open>
  \<^verbatim>\<open>handleNavigate\<close>, \<^verbatim>\<open>handleSelectTask\<close> and \<^verbatim>\<open>handleSelectGroup\<close> call the state
  setters with constants or their argument, so each is a function from the state before
  to the state after. \<^verbatim>\<open>handleBack\<close> also reads the environment: its first argument says
  whether \<^verbatim>\<open>window.Telegram?.WebApp\<close> is present.
\<close>

definition handleNavigate :: "Page \<Rightarrow> AppState \<Rightarrow> AppState" where
  "handleNavigate page s =
     s\<lparr>currentPage := page, selectedTaskId := None, selectedGroupId := None\<rparr>"

definition handleBack :: "bool \<Rightarrow> AppState \<Rightarrow> AppState" where
  "handleBack webApp s =
     (if truthy (selectedTaskId s) \<or> truthy (selectedGroupId s) then
        (let targetPage = (if truthy (selectedTaskId s) then myTasks else myGroups)
         in handleNavigate targetPage s)
      else if webApp then handleNavigate myTasks s
      else s)"

definition handleSelectTask :: "string \<Rightarrow> AppState \<Rightarrow> AppState" where
  "handleSelectTask tid s = s\<lparr>selectedTaskId := Some tid, currentPage := taskDetails\<rparr>"

definition handleSelectGroup :: "string \<Rightarrow> AppState \<Rightarrow> AppState" where
  "handleSelectGroup gid s = s\<lparr>selectedGroupId := Some gid, currentPage := groupDetails\<rparr>"

text \<open>
  What \<^verbatim>\<open>renderPage\<close> returns: the component, with the props that identify it.
\<close>

datatype Screen =
    ErrorDisplay string
  | Loading
  | PageTaskDetails string
  | PageGroupDetails string
  | PageMyTasks
  | PageMyGroups
  | PageAdminCreateTask
  | PageAdminCreateGroup
  | PageAdminAllGroups

definition renderPage :: "AppState \<Rightarrow> Screen" where
  "renderPage s =
     (if truthy (error s) then ErrorDisplay (str_of (error s))
      else if user s = None then Loading
      else if truthy (selectedTaskId s) then PageTaskDetails (str_of (selectedTaskId s))
      else if truthy (selectedGroupId s) then PageGroupDetails (str_of (selectedGroupId s))
      else (case currentPage s of
              myTasks \<Rightarrow> PageMyTasks
            | myGroups \<Rightarrow> PageMyGroups
            | adminCreateTask \<Rightarrow> PageAdminCreateTask
            | adminCreateGroup \<Rightarrow> PageAdminCreateGroup
            | adminAllGroups \<Rightarrow> PageAdminAllGroups
            | taskDetails \<Rightarrow> PageMyTasks
            | groupDetails \<Rightarrow> PageMyTasks))"

section \<open>The application as a transition system\<close>

text \<open>
  The \<^verbatim>\<open>App\<close> component with its environment. Besides the six state cells, the state
  records whether \<^verbatim>\<open>window.Telegram?.WebApp\<close> is present, the requests issued so far in
  order, and the promises that can still call back into \<^verbatim>\<open>App\<close>: the
  \<^verbatim>\<open>fetchUserData()\<close> promises not yet settled, and the \<^verbatim>\<open>createTask\<close> and
  \<^verbatim>\<open>createGroup\<close> requests whose completion callback (\<^verbatim>\<open>onTaskCreated\<close>,
  \<^verbatim>\<open>onGroupCreated\<close>, run at once or after the two-second timer) has not yet run.
\<close>

record World =
  app :: AppState
  webApp :: bool
  calls :: "Call list"
  pendingIdentity :: nat
  pendingTaskCreated :: nat
  pendingGroupCreated :: nat

text \<open>
  The launch context: \<^verbatim>\<open>new URLSearchParams(window.location.search)\<close> either throws, with
  a message, or gives the query parameters; \<^verbatim>\<open>get\<close> returns the first value of a name,
  or \<^verbatim>\<open>null\<close>.
\<close>

datatype Launch =
    UrlError string
  | Search "(string \<times> string) list"

definition initEffect :: "Launch \<Rightarrow> AppState \<Rightarrow> AppState" where
  "initEffect l s =
     (case l of
        UrlError m \<Rightarrow> s\<lparr>error := Some (urlParsePrefix @ m)\<rparr>
      | Search urlParams \<Rightarrow>
          (let replyIp = map_of urlParams ''replyip''
           in if truthy replyIp then s\<lparr>apiBaseUrl := str_of replyIp\<rparr>
              else s\<lparr>error := Some configMissingMessage\<rparr>))"

text \<open>
  The identity effect, \<^verbatim>\<open>useEffect(..., [api, apiBaseUrl])\<close>. On the first render
  \<^verbatim>\<open>apiBaseUrl\<close> is empty and the effect does nothing; it runs again only after a render
  in which \<^verbatim>\<open>apiBaseUrl\<close> has changed, and \<^verbatim>\<open>setApiBaseUrl\<close> is called nowhere but in the
  init effect, whose dependency list is empty. So mounting is the init effect followed by
  one run of the identity effect.
\<close>

definition identityEffect :: "World \<Rightarrow> World" where
  "identityEffect w =
     (if apiBaseUrl (app w) \<noteq> [] then
        w\<lparr>app := (app w)\<lparr>error := None\<rparr>,
          calls := calls w @ [fetchUserData],
          pendingIdentity := Suc (pendingIdentity w)\<rparr>
      else w)"

definition mount :: "Launch \<Rightarrow> bool \<Rightarrow> World" where
  "mount l host =
     identityEffect
       \<lparr>app = initEffect l initialApp, webApp = host, calls = [],
        pendingIdentity = 0, pendingTaskCreated = 0, pendingGroupCreated = 0\<rparr>"

text \<open>
  The callbacks of \<^verbatim>\<open>api.fetchUserData()\<close> in the identity effect.
\<close>

definition identityThen :: "User \<Rightarrow> AppState \<Rightarrow> AppState" where
  "identityThen u s =
     (if role u = admin_role then s\<lparr>user := Some u, currentPage := adminCreateTask\<rparr>
      else s\<lparr>user := Some u, currentPage := myTasks\<rparr>)"

definition identityCatch :: "string \<Rightarrow> AppState \<Rightarrow> AppState" where
  "identityCatch m s = s\<lparr>error := Some (authErrorPrefix @ m)\<rparr>"

definition itemsToShow :: "UserRole \<Rightarrow> Page list" where
  "itemsToShow r =
     (if r = admin_role then
        [myTasks, myGroups] @ [adminCreateTask, adminCreateGroup, adminAllGroups]
      else [myTasks, myGroups])"

text \<open>
  The request a data page issues when its effect runs (on mount, and for a details page
  when its id changes) and when its retry button is pressed.
\<close>

fun loadCalls :: "Screen \<Rightarrow> Call list" where
  "loadCalls PageMyTasks = [fetchUserTasks]"
| "loadCalls (PageTaskDetails tid) = [fetchTaskDetails tid]"
| "loadCalls PageMyGroups = [fetchUserGroups]"
| "loadCalls (PageGroupDetails gid) = [fetchGroupDetails gid]"
| "loadCalls PageAdminAllGroups = [fetchAllGroups]"
| "loadCalls other = []"

text \<open>
  The events, each enabled only where the source wires it up:
  \<^item> the identity promise settles, if one is pending;
  \<^item> a button of \<^verbatim>\<open>BottomNavBar\<close> is pressed; the bar is rendered when \<^verbatim>\<open>user && !error\<close>
    and shows \<^verbatim>\<open>itemsToShow\<close>;
  \<^item> a list item is pressed: \<^verbatim>\<open>onSelectTask\<close> is passed to \<^verbatim>\<open>PageMyTasks\<close> only,
    \<^verbatim>\<open>onSelectGroup\<close> to \<^verbatim>\<open>PageMyGroups\<close> and \<^verbatim>\<open>PageAdminAllGroups\<close> only;
  \<^item> the back button in the header of a details page is pressed (\<^verbatim>\<open>onBack\<close>);
  \<^item> the host's back button is pressed: \<^verbatim>\<open>handleBack\<close> is registered with
    \<^verbatim>\<open>BackButton.onClick\<close> only when the host bridge is present;
  \<^item> a retry button is pressed on a data page;
  \<^item> a creation form is submitted on its page;
  \<^item> \<^verbatim>\<open>onTaskCreated\<close> or \<^verbatim>\<open>onGroupCreated\<close> runs for a request issued earlier.
  An event that is not enabled leaves the state as it is. Retry is allowed on every data
  page, whether or not its last load failed, and any id may be selected from a list:
  the transition system allows at least what the application can do.
\<close>

datatype Event =
    identityLoaded User
  | identityFailed string
  | navItemClick Page
  | taskItemClick string
  | groupItemClick string
  | headerBackClick
  | backButtonClick
  | retryClick
  | submitTaskForm "(string \<times> string) list"
  | submitGroupForm "(string \<times> string) list"
  | taskCreated
  | groupCreated

fun handle :: "Event \<Rightarrow> World \<Rightarrow> World" where
  "handle (identityLoaded u) w =
     (if 0 < pendingIdentity w then
        w\<lparr>app := identityThen u (app w), pendingIdentity := pendingIdentity w - 1\<rparr>
      else w)"
| "handle (identityFailed m) w =
     (if 0 < pendingIdentity w then
        w\<lparr>app := identityCatch m (app w), pendingIdentity := pendingIdentity w - 1\<rparr>
      else w)"
| "handle (navItemClick page) w =
     (case user (app w) of
        None \<Rightarrow> w
      | Some u \<Rightarrow>
          if \<not> truthy (error (app w)) \<and> page \<in> set (itemsToShow (role u))
          then w\<lparr>app := handleNavigate page (app w)\<rparr>
          else w)"
| "handle (taskItemClick tid) w =
     (if renderPage (app w) = PageMyTasks then w\<lparr>app := handleSelectTask tid (app w)\<rparr>
      else w)"
| "handle (groupItemClick gid) w =
     (if renderPage (app w) = PageMyGroups \<or> renderPage (app w) = PageAdminAllGroups
      then w\<lparr>app := handleSelectGroup gid (app w)\<rparr>
      else w)"
| "handle headerBackClick w =
     (case renderPage (app w) of
        PageTaskDetails tid \<Rightarrow> w\<lparr>app := handleNavigate myTasks (app w)\<rparr>
      | PageGroupDetails gid \<Rightarrow> w\<lparr>app := handleNavigate myGroups (app w)\<rparr>
      | other \<Rightarrow> w)"
| "handle backButtonClick w =
     (if webApp w then w\<lparr>app := handleBack (webApp w) (app w)\<rparr> else w)"
| "handle retryClick w = w\<lparr>calls := calls w @ loadCalls (renderPage (app w))\<rparr>"
| "handle (submitTaskForm entries) w =
     (if renderPage (app w) = PageAdminCreateTask then
        (let issued = snd (handleSubmit entries \<lparr>isLoading = False, formError = None\<rparr>)
         in w\<lparr>calls := calls w @ issued,
              pendingTaskCreated := pendingTaskCreated w + length issued\<rparr>)
      else w)"
| "handle (submitGroupForm entries) w =
     (if renderPage (app w) = PageAdminCreateGroup then
        (let issued = snd (handleSubmitGroup entries \<lparr>isLoading = False, formError = None\<rparr>)
         in w\<lparr>calls := calls w @ issued,
              pendingGroupCreated := pendingGroupCreated w + length issued\<rparr>)
      else w)"
| "handle taskCreated w =
     (if 0 < pendingTaskCreated w then
        w\<lparr>app := handleNavigate myTasks (app w),
          pendingTaskCreated := pendingTaskCreated w - 1\<rparr>
      else w)"
| "handle groupCreated w =
     (if 0 < pendingGroupCreated w then
        w\<lparr>app := handleNavigate adminAllGroups (app w),
          pendingGroupCreated := pendingGroupCreated w - 1\<rparr>
      else w)"

text \<open>
  One step: the event's handler, then the render. When the render shows another page
  than before, that page's controller is mounted and its effect issues its request.
\<close>

definition step :: "World \<Rightarrow> Event \<Rightarrow> World" where
  "step w ev =
     (let w' = handle ev w
      in if renderPage (app w') \<noteq> renderPage (app w)
         then w'\<lparr>calls := calls w' @ loadCalls (renderPage (app w'))\<rparr>
         else w')"

definition run :: "World \<Rightarrow> Event list \<Rightarrow> World" where
  "run w evs = foldl step w evs"


text \<open>
  Two further predicates on states of the transition system. \<open>sessionFailed e\<close>: the session
  error is \<open>e\<close>, no request has been issued and no promise is pending.
  \<open>redirectDone\<close>: no identity promise is pending and the current page is not
  \<^verbatim>\<open>adminCreateTask\<close>.
\<close>

definition sessionFailed :: "string \<Rightarrow> World \<Rightarrow> bool" where
  "sessionFailed e w =
     (error (app w) = Some e \<and> calls w = [] \<and> pendingIdentity w = 0
      \<and> pendingTaskCreated w = 0 \<and> pendingGroupCreated w = 0)"

definition redirectDone :: "World \<Rightarrow> bool" where
  "redirectDone w = (pendingIdentity w = 0 \<and> currentPage (app w) \<noteq> adminCreateTask)"

section \<open>Example inputs\<close>

text \<open>
  Concrete inputs on which the properties below are evaluated: two responses, a platform
  whose parser knows the body of the first, the details of a task, two identities and a
  launch context with a base address.
\<close>

definition response404 :: Response where
  \<open>response404 =
     \<lparr>status = 404, statusText = ''Not Found'', contentType = Some ''application/json'',
      body = Some ''{"message":"not found"}'', bodyUsed = False\<rparr>\<close>

definition response500 :: Response where
  \<open>response500 =
     \<lparr>status = 500, statusText = ''Internal Server Error'', contentType = Some ''text/plain'',
      body = Some ''Internal Server Error'', bodyUsed = False\<rparr>\<close>

definition examplePlatform :: Platform where
  \<open>examplePlatform =
     \<lparr>JSON_parse = (\<lambda>s. if s = ''{"message":"not found"}''
                          then Some (JObject [(''message'', JString ''not found'')]) else None),
      JSON_stringify = (\<lambda>j. ''{}''),
      toString = (\<lambda>j. case j of JString s \<Rightarrow> s | _ \<Rightarrow> [])\<rparr>\<close>


definition exampleUser :: User where
  "exampleUser = \<lparr>user_id = ''42'', user_name = ''Ann'', role = user_role\<rparr>"

definition exampleAdmin :: User where
  "exampleAdmin = \<lparr>user_id = ''1'', user_name = ''Root'', role = admin_role\<rparr>"

definition exampleLaunch :: Launch where
  "exampleLaunch = Search [(''replyip'', ''https://api.example'')]"

section \<open>Basic facts\<close>

lemma truthy_simps [simp]:
  "truthy None = False"
  "truthy (Some s) = (s \<noteq> [])"
  by (simp_all add: truthy_def)

lemma str_of_simps [simp]:
  "str_of None = []"
  "str_of (Some s) = s"
  by (simp_all add: str_of_def)

lemma handleNavigate_fields [simp]:
  "currentPage (handleNavigate page s) = page"
  "selectedTaskId (handleNavigate page s) = None"
  "selectedGroupId (handleNavigate page s) = None"
  "user (handleNavigate page s) = user s"
  "apiBaseUrl (handleNavigate page s) = apiBaseUrl s"
  "error (handleNavigate page s) = error s"
  by (simp_all add: handleNavigate_def)

lemma handleBack_error [simp]: "error (handleBack host s) = error s"
  by (simp add: handleBack_def Let_def)

lemma handleBack_page:
  "currentPage (handleBack host s) = myTasks \<or> currentPage (handleBack host s) = myGroups
   \<or> currentPage (handleBack host s) = currentPage s"
  by (simp add: handleBack_def Let_def)

lemma renderPage_error:
  "error s = Some e \<Longrightarrow> e \<noteq> [] \<Longrightarrow> renderPage s = ErrorDisplay e"
  by (simp add: renderPage_def)

lemma configMissingMessage_nonempty: "configMissingMessage \<noteq> []"
  by (simp add: configMissingMessage_def)

lemma requiredFieldsMessage_nonempty: "requiredFieldsMessage \<noteq> []"
  by (simp add: requiredFieldsMessage_def)

lemma step_fields [simp]:
  "app (step w ev) = app (handle ev w)"
  "webApp (step w ev) = webApp (handle ev w)"
  "pendingIdentity (step w ev) = pendingIdentity (handle ev w)"
  "pendingTaskCreated (step w ev) = pendingTaskCreated (handle ev w)"
  "pendingGroupCreated (step w ev) = pendingGroupCreated (handle ev w)"
  by (simp_all add: step_def Let_def)

lemma run_Nil [simp]: "run w [] = w"
  by (simp add: run_def)

lemma run_Cons [simp]: "run w (ev # evs) = run (step w ev) evs"
  by (simp add: run_def)

lemma run_append: "run w (xs @ ys) = run (run w xs) ys"
  by (simp add: run_def)

text \<open>
  A property that holds of a state and is kept by every step on an event of the
  sequence holds after the whole sequence.
\<close>

lemma run_preserves:
  assumes "I w" and "\<And>w' ev. I w' \<Longrightarrow> ev \<in> set evs \<Longrightarrow> I (step w' ev)"
  shows "I (run w evs)"
  using assms
proof (induction evs arbitrary: w)
  case Nil
  then show ?case by simp
next
  case (Cons ev evs)
  have "I (step w ev)"
    using Cons.prems by simp
  then show ?case
    using Cons.IH Cons.prems(2) by simp
qed

section \<open>The gateway's error branch\<close>

lemma show_nat_404: "show_nat 404 = ''404''"
  by (simp add: show_nat.simps)

text \<open>
  Whatever the \<^verbatim>\<open>try\<close> block raises, it leaves a response whose body has been read.
\<close>

lemma errorTry_response:
  "\<not> bodyUsed r \<Longrightarrow> snd (errorTry P r) = r\<lparr>bodyUsed := (body r \<noteq> None)\<rparr>"
  by (auto simp: errorTry_def Response_json_def unusable_def
      split: prod.splits sum.splits option.splits)

lemma errorCatch_used:
  "body r \<noteq> None \<Longrightarrow> bodyUsed r \<Longrightarrow> errorCatch r = TypeError"
  by (simp add: errorCatch_def Response_text_def unusable_def)

text \<open>
  So for a non-success response that has a body, \<^verbatim>\<open>apiFetch\<close> rejects with the
  \<^verbatim>\<open>TypeError\<close> of the second read, for every parser and every body.
\<close>

lemma apiFetch_error_body_read_twice:
  assumes "\<not> ok r" and "body r \<noteq> None" and "\<not> bodyUsed r"
  shows "apiFetch P (Inr r) = Inl TypeError"
proof -
  obtain thrown r' where t: "errorTry P r = (thrown, r')"
    by (cases "errorTry P r")
  with errorTry_response [OF assms(3), of P] have "r' = r\<lparr>bodyUsed := (body r \<noteq> None)\<rparr>"
    by simp
  with assms(2) have "errorCatch r' = TypeError"
    by (simp add: errorCatch_used)
  with t assms(1) show ?thesis
    by (simp add: apiFetch_def)
qed

text \<open>
  Only a non-success response with a null body, which neither read disturbs, reaches the
  second \<^verbatim>\<open>throw\<close>: the message is then built from the status text.
\<close>

lemma apiFetch_error_null_body:
  assumes "\<not> ok r" and "body r = None" and "JSON_parse P [] = None"
  shows "apiFetch P (Inr r) = Inl (Error (apiErrorMessage (status r) (statusText r)))"
  using assms
  by (simp add: apiFetch_def errorTry_def errorCatch_def Response_json_def Response_text_def
      unusable_def)

text \<open>
  Claim C1, evaluated on its two examples. For the response with status 404 and body
  \<^verbatim>\<open>{"message":"not found"}\<close>, and for the response with status 500 and body
  \<^verbatim>\<open>Internal Server Error\<close>, \<^verbatim>\<open>apiFetch\<close> rejects with a \<^verbatim>\<open>TypeError\<close>, whatever the JSON
  parser and the string conversions are; it does not reject with an \<^verbatim>\<open>Error\<close> whose
  message is \<^verbatim>\<open>API Error (404): not found\<close>, respectively
  \<^verbatim>\<open>API Error (500): Internal Server Error\<close>.
\<close>

theorem apiFetch_error_examples:
  "apiFetch P (Inr response404) = Inl TypeError
   \<and> apiFetch P (Inr response404) \<noteq> Inl (Error ''API Error (404): not found'')
   \<and> apiFetch P (Inr response500) = Inl TypeError
   \<and> apiFetch P (Inr response500) \<noteq> Inl (Error ''API Error (500): Internal Server Error'')"
proof -
  have a: "apiFetch P (Inr response404) = Inl TypeError"
    by (rule apiFetch_error_body_read_twice) (simp_all add: response404_def ok_def)
  have b: "apiFetch P (Inr response500) = Inl TypeError"
    by (rule apiFetch_error_body_read_twice) (simp_all add: response500_def ok_def)
  show ?thesis by (simp add: a b)
qed

text \<open>
  With a parser that decodes the first body: the \<^verbatim>\<open>try\<close> block does build the message
  \<^verbatim>\<open>API Error (404): not found\<close> and throws it, and on the second body it fails with a
  \<^verbatim>\<open>SyntaxError\<close>; in both cases the \<^verbatim>\<open>catch\<close> block replaces what was thrown.
\<close>

theorem apiFetch_error_examples_witness:
  "apiFetch examplePlatform (Inr response404) = Inl TypeError
   \<and> fst (errorTry examplePlatform response404) = Error ''API Error (404): not found''
   \<and> apiFetch examplePlatform (Inr response500) = Inl TypeError
   \<and> fst (errorTry examplePlatform response500) = SyntaxError"
proof -
  have t: "fst (errorTry examplePlatform response404) = Error ''API Error (404): not found''"
    by (simp add: errorTry_def Response_json_def unusable_def examplePlatform_def
        response404_def apiErrorMessage_def show_nat_404)
  have u: "fst (errorTry examplePlatform response500) = SyntaxError"
    by (simp add: errorTry_def Response_json_def unusable_def examplePlatform_def
        response500_def)
  from apiFetch_error_examples [of examplePlatform] t u show ?thesis by simp
qed

section \<open>Late completions in a details controller\<close>





section \<open>Selections\<close>






section \<open>A launch without a base address\<close>

lemma sessionFailed_handle:
  assumes "sessionFailed e w" and "e \<noteq> []"
  shows "sessionFailed e (handle ev w)"
proof -
  have r: "renderPage (app w) = ErrorDisplay e"
    using assms by (simp add: sessionFailed_def renderPage_error)
  show ?thesis
    using assms r
    by (cases ev) (auto simp: sessionFailed_def split: option.splits)
qed

lemma sessionFailed_step:
  assumes "sessionFailed e w" and "e \<noteq> []"
  shows "sessionFailed e (step w ev)"
proof -
  have h: "sessionFailed e (handle ev w)"
    using assms by (rule sessionFailed_handle)
  have "renderPage (app (handle ev w)) = ErrorDisplay e"
    using h assms(2) by (simp add: sessionFailed_def renderPage_error)
  moreover have "renderPage (app w) = ErrorDisplay e"
    using assms by (simp add: sessionFailed_def renderPage_error)
  ultimately have "step w ev = handle ev w"
    by (simp add: step_def)
  with h show ?thesis by simp
qed

lemma sessionFailed_run:
  assumes "sessionFailed e w" and "e \<noteq> []"
  shows "sessionFailed e (run w evs)"
  using assms(1)
  by (rule run_preserves) (simp add: sessionFailed_step assms(2))

text \<open>
  The init effect takes an empty \<^verbatim>\<open>replyip\<close> for a missing one; a launch URL that cannot
  be parsed fails the session in the same way, with its own message.
\<close>

lemma mount_without_replyip:
  assumes "\<not> truthy (map_of urlParams ''replyip'')"
  shows "sessionFailed configMissingMessage (mount (Search urlParams) host)"
  using assms
  by (simp add: mount_def initEffect_def identityEffect_def initialApp_def sessionFailed_def)

lemma mount_url_error:
  "sessionFailed (urlParsePrefix @ m) (mount (UrlError m) host)"
  by (simp add: mount_def initEffect_def identityEffect_def initialApp_def sessionFailed_def)

text \<open>
  Claim C4. For every launch whose query has no \<^verbatim>\<open>replyip\<close> parameter, with or without
  the host bridge, and after every sequence of events: no request has been issued (the
  identity request included, and none is pending), the session error is the
  configuration message, which is not empty, and the page rendered is the error display
  with that message.
\<close>

theorem missing_replyip_is_fatal_and_silent:
  assumes "map_of urlParams ''replyip'' = None"
  shows "calls (run (mount (Search urlParams) host) evs) = []
     \<and> error (app (run (mount (Search urlParams) host) evs)) = Some configMissingMessage
     \<and> renderPage (app (run (mount (Search urlParams) host) evs))
         = ErrorDisplay configMissingMessage
     \<and> configMissingMessage \<noteq> []
     \<and> pendingIdentity (run (mount (Search urlParams) host) evs) = 0"
proof -
  have "\<not> truthy (map_of urlParams ''replyip'')"
    using assms by simp
  then have "sessionFailed configMissingMessage (mount (Search urlParams) host)"
    by (rule mount_without_replyip)
  then have "sessionFailed configMissingMessage (run (mount (Search urlParams) host) evs)"
    using configMissingMessage_nonempty by (rule sessionFailed_run)
  then show ?thesis
    by (simp add: sessionFailed_def renderPage_error configMissingMessage_nonempty)
qed

theorem missing_replyip_is_fatal_and_silent_witness:
  "map_of [(''theme'', ''dark'')] ''replyip'' = None
   \<and> calls (run (mount (Search [(''theme'', ''dark'')]) True)
        [backButtonClick, identityLoaded exampleAdmin, navItemClick myGroups,
         taskItemClick ''t1'', retryClick, submitTaskForm [(''title'', ''x'')]]) = []
   \<and> renderPage (app (run (mount (Search [(''theme'', ''dark'')]) True)
        [backButtonClick, identityLoaded exampleAdmin, navItemClick myGroups,
         taskItemClick ''t1'', retryClick, submitTaskForm [(''title'', ''x'')]]))
       = ErrorDisplay configMissingMessage"
proof -
  have a: "map_of [(''theme'', ''dark'')] ''replyip'' = None"
    by simp
  from missing_replyip_is_fatal_and_silent [OF a, of True
         "[backButtonClick, identityLoaded exampleAdmin, navItemClick myGroups,
           taskItemClick ''t1'', retryClick, submitTaskForm [(''title'', ''x'')]]"] a
  show ?thesis by blast
qed

section \<open>Which page is rendered\<close>

text \<open>
  Every session error the application sets is a non-empty message, so in the running
  application a session error that is set is one that \<^verbatim>\<open>renderPage\<close> sees.
\<close>

lemma error_never_empty_handle:
  assumes "error (app w) \<noteq> Some []"
  shows "error (app (handle ev w)) \<noteq> Some []"
  using assms
  by (cases ev)
     (auto simp: identityThen_def identityCatch_def authErrorPrefix_def handleSelectTask_def
        handleSelectGroup_def Let_def split: option.splits Screen.splits)

lemma error_never_empty:
  "error (app (run (mount l host) evs)) \<noteq> Some []"
proof (rule run_preserves [where I = "\<lambda>w. error (app w) \<noteq> Some []"])
  show "error (app (mount l host)) \<noteq> Some []"
    by (cases l)
       (simp_all add: mount_def initEffect_def identityEffect_def initialApp_def Let_def
          configMissingMessage_def urlParsePrefix_def)
qed (simp add: error_never_empty_handle)

text \<open>
  Claim C5. \<^verbatim>\<open>renderPage\<close> decides in this order: a session error gives the error display
  with its message, whatever the rest of the state; otherwise, no identity gives the
  loading screen; otherwise an active task selection gives the task details of that id;
  otherwise an active group selection gives the group details of that id; otherwise the
  current page decides, each of the five tab pages giving its own screen and both
  \<^verbatim>\<open>taskDetails\<close> and \<^verbatim>\<open>groupDetails\<close>, which stand without a selection here, giving the
  tasks list. \<^verbatim>\<open>Page\<close> is a closed type, so there is no further value for the \<^verbatim>\<open>default\<close>
  branch. A session error and a selection count when truthy; the last part says that in
  every state the application reaches, a session error that is set is rendered.
\<close>

theorem renderPage_precedence:
  "(truthy (error s) \<longrightarrow> renderPage s = ErrorDisplay (str_of (error s)))
   \<and> (\<not> truthy (error s) \<and> user s = None \<longrightarrow> renderPage s = Loading)
   \<and> (\<not> truthy (error s) \<and> user s \<noteq> None \<and> truthy (selectedTaskId s) \<longrightarrow>
        renderPage s = PageTaskDetails (str_of (selectedTaskId s)))
   \<and> (\<not> truthy (error s) \<and> user s \<noteq> None \<and> \<not> truthy (selectedTaskId s)
        \<and> truthy (selectedGroupId s) \<longrightarrow>
        renderPage s = PageGroupDetails (str_of (selectedGroupId s)))
   \<and> (\<not> truthy (error s) \<and> user s \<noteq> None \<and> \<not> truthy (selectedTaskId s)
        \<and> \<not> truthy (selectedGroupId s) \<longrightarrow>
        (currentPage s = myTasks \<longrightarrow> renderPage s = PageMyTasks)
        \<and> (currentPage s = myGroups \<longrightarrow> renderPage s = PageMyGroups)
        \<and> (currentPage s = adminCreateTask \<longrightarrow> renderPage s = PageAdminCreateTask)
        \<and> (currentPage s = adminCreateGroup \<longrightarrow> renderPage s = PageAdminCreateGroup)
        \<and> (currentPage s = adminAllGroups \<longrightarrow> renderPage s = PageAdminAllGroups)
        \<and> (currentPage s = taskDetails \<or> currentPage s = groupDetails \<longrightarrow>
             renderPage s = PageMyTasks))
   \<and> (error (app (run (mount l host) evs)) \<noteq> None \<longrightarrow>
        renderPage (app (run (mount l host) evs))
          = ErrorDisplay (str_of (error (app (run (mount l host) evs)))))"
proof -
  have "renderPage (app (run (mount l host) evs))
      = ErrorDisplay (str_of (error (app (run (mount l host) evs))))"
    if "error (app (run (mount l host) evs)) \<noteq> None"
  proof -
    from that obtain e where e: "error (app (run (mount l host) evs)) = Some e"
      by blast
    with error_never_empty [of l host evs] have "e \<noteq> []"
      by auto
    with e show ?thesis
      by (simp add: renderPage_error)
  qed
  then show ?thesis
    by (auto simp: renderPage_def)
qed

theorem renderPage_precedence_witness:
  "renderPage \<lparr>currentPage = myGroups, user = Some exampleUser, apiBaseUrl = ''https://api'',
      error = Some ''boom'', selectedTaskId = Some ''t1'', selectedGroupId = Some ''g1''\<rparr>
     = ErrorDisplay ''boom''
   \<and> renderPage \<lparr>currentPage = myGroups, user = None, apiBaseUrl = ''https://api'',
      error = None, selectedTaskId = Some ''t1'', selectedGroupId = Some ''g1''\<rparr> = Loading
   \<and> renderPage \<lparr>currentPage = myGroups, user = Some exampleUser, apiBaseUrl = ''https://api'',
      error = None, selectedTaskId = Some ''t1'', selectedGroupId = Some ''g1''\<rparr>
     = PageTaskDetails ''t1''
   \<and> renderPage \<lparr>currentPage = myTasks, user = Some exampleUser, apiBaseUrl = ''https://api'',
      error = None, selectedTaskId = None, selectedGroupId = Some ''g1''\<rparr>
     = PageGroupDetails ''g1''
   \<and> renderPage \<lparr>currentPage = groupDetails, user = Some exampleUser,
      apiBaseUrl = ''https://api'', error = None, selectedTaskId = None,
      selectedGroupId = None\<rparr> = PageMyTasks"
  using
    renderPage_precedence [of "\<lparr>currentPage = myGroups, user = Some exampleUser,
      apiBaseUrl = ''https://api'', error = Some ''boom'', selectedTaskId = Some ''t1'',
      selectedGroupId = Some ''g1''\<rparr>"]
    renderPage_precedence [of "\<lparr>currentPage = myGroups, user = None,
      apiBaseUrl = ''https://api'', error = None, selectedTaskId = Some ''t1'',
      selectedGroupId = Some ''g1''\<rparr>"]
    renderPage_precedence [of "\<lparr>currentPage = myGroups, user = Some exampleUser,
      apiBaseUrl = ''https://api'', error = None, selectedTaskId = Some ''t1'',
      selectedGroupId = Some ''g1''\<rparr>"]
    renderPage_precedence [of "\<lparr>currentPage = myTasks, user = Some exampleUser,
      apiBaseUrl = ''https://api'', error = None, selectedTaskId = None,
      selectedGroupId = Some ''g1''\<rparr>"]
    renderPage_precedence [of "\<lparr>currentPage = groupDetails, user = Some exampleUser,
      apiBaseUrl = ''https://api'', error = None, selectedTaskId = None,
      selectedGroupId = None\<rparr>"]
  by simp

section \<open>Back and navigate\<close>




text \<open>
  Claim C10. When no selection is active and the host bridge is absent, \<^verbatim>\<open>handleBack\<close>
  returns the state it was given: the current page and both selections keep their
  values, as does everything else. In the same states with the host bridge present, it
  is the navigation to the tasks list.
\<close>

theorem handleBack_without_host_is_identity:
  assumes "\<not> truthy (selectedTaskId s)" and "\<not> truthy (selectedGroupId s)"
  shows "handleBack False s = s \<and> handleBack True s = handleNavigate myTasks s"
  using assms by (simp add: handleBack_def)

theorem handleBack_without_host_is_identity_witness:
  "handleBack False (initialApp\<lparr>currentPage := adminAllGroups, selectedTaskId := Some []\<rparr>)
     = initialApp\<lparr>currentPage := adminAllGroups, selectedTaskId := Some []\<rparr>
   \<and> currentPage (handleBack True
        (initialApp\<lparr>currentPage := adminAllGroups, selectedTaskId := Some []\<rparr>)) = myTasks"
  using handleBack_without_host_is_identity
    [of "initialApp\<lparr>currentPage := adminAllGroups, selectedTaskId := Some []\<rparr>"]
  by (simp add: initialApp_def)

text \<open>
  Claim C7. For every page and every state before, \<^verbatim>\<open>handleNavigate\<close> sets
  \<open>currentPage\<close> to that page and sets both \<open>selectedTaskId\<close> and \<open>selectedGroupId\<close>
  to \<^verbatim>\<open>null\<close>, whatever they were; the identity, the base address and the session error
  are untouched. Navigating to the page that is already current is no exception: the
  page stays and both selections are cleared.
\<close>

theorem handleNavigate_sets_page_clears_selections:
  "currentPage (handleNavigate page s) = page
   \<and> selectedTaskId (handleNavigate page s) = None
   \<and> selectedGroupId (handleNavigate page s) = None
   \<and> user (handleNavigate page s) = user s
   \<and> apiBaseUrl (handleNavigate page s) = apiBaseUrl s
   \<and> error (handleNavigate page s) = error s
   \<and> handleNavigate (currentPage s) s = s\<lparr>selectedTaskId := None, selectedGroupId := None\<rparr>"
  by (simp add: handleNavigate_def)

section \<open>The redirect at identity load\<close>

lemma redirectDone_handle:
  assumes "redirectDone w" and "ev \<noteq> navItemClick adminCreateTask"
  shows "redirectDone (handle ev w)"
proof (cases ev)
  case backButtonClick
  then show ?thesis
    using assms(1) handleBack_page [of "webApp w" "app w"]
    by (auto simp: redirectDone_def)
next
  case (navItemClick page)
  then show ?thesis
    using assms by (auto simp: redirectDone_def split: option.splits)
qed (use assms(1) in \<open>auto simp: redirectDone_def handleSelectTask_def handleSelectGroup_def
       identityThen_def identityCatch_def Let_def split: Screen.splits\<close>)

lemma redirectDone_run:
  assumes "redirectDone w" and "navItemClick adminCreateTask \<notin> set evs"
  shows "redirectDone (run w evs)"
  using assms(1)
proof (rule run_preserves)
  fix w' ev
  assume "redirectDone w'" and "ev \<in> set evs"
  with assms(2) have "redirectDone (handle ev w')"
    by (intro redirectDone_handle) auto
  then show "redirectDone (step w' ev)"
    by (simp add: redirectDone_def)
qed

lemma mount_with_replyip:
  assumes "map_of urlParams ''replyip'' = Some url" and "url \<noteq> []"
  shows "mount (Search urlParams) host =
     \<lparr>app = initialApp\<lparr>apiBaseUrl := url\<rparr>, webApp = host, calls = [fetchUserData],
      pendingIdentity = 1, pendingTaskCreated = 0, pendingGroupCreated = 0\<rparr>"
  using assms
  by (simp add: mount_def initEffect_def identityEffect_def initialApp_def)

text \<open>
  Claim C8. Take a launch with a base address, an identity \<open>u\<close> with role admin and an
  identity \<open>u'\<close> with role user. Mounting issues the identity request once and leaves
  the current page at the tasks list. When the identity \<open>u\<close> loads, the current page
  becomes \<^verbatim>\<open>adminCreateTask\<close> and that page is rendered. When the admin then presses the
  tasks tab, the current page is the tasks list and the tasks list is rendered; and after
  that, whatever events follow, as long as none of them is a press of the
  \<^verbatim>\<open>adminCreateTask\<close> tab, the current page is never \<^verbatim>\<open>adminCreateTask\<close> again. When
  instead the identity \<open>u'\<close> loads, the current page stays the tasks list and the tasks
  list is rendered.
\<close>

theorem admin_redirect_is_one_time:
  assumes "map_of urlParams ''replyip'' = Some url" and "url \<noteq> []"
    and "role u = admin_role" and "role u' = user_role"
  shows "calls (mount (Search urlParams) host) = [fetchUserData]
     \<and> pendingIdentity (mount (Search urlParams) host) = 1
     \<and> currentPage (app (mount (Search urlParams) host)) = myTasks
     \<and> currentPage (app (run (mount (Search urlParams) host) [identityLoaded u]))
         = adminCreateTask
     \<and> renderPage (app (run (mount (Search urlParams) host) [identityLoaded u]))
         = PageAdminCreateTask
     \<and> currentPage (app (run (mount (Search urlParams) host)
          [identityLoaded u, navItemClick myTasks])) = myTasks
     \<and> renderPage (app (run (mount (Search urlParams) host)
          [identityLoaded u, navItemClick myTasks])) = PageMyTasks
     \<and> (navItemClick adminCreateTask \<notin> set evs \<longrightarrow>
          currentPage (app (run (mount (Search urlParams) host)
            ([identityLoaded u, navItemClick myTasks] @ evs))) \<noteq> adminCreateTask)
     \<and> currentPage (app (run (mount (Search urlParams) host) [identityLoaded u'])) = myTasks
     \<and> renderPage (app (run (mount (Search urlParams) host) [identityLoaded u']))
         = PageMyTasks"
proof -
  let ?w0 = "mount (Search urlParams) host"
  have m: "?w0 = \<lparr>app = initialApp\<lparr>apiBaseUrl := url\<rparr>, webApp = host,
      calls = [fetchUserData], pendingIdentity = 1, pendingTaskCreated = 0,
      pendingGroupCreated = 0\<rparr>"
    using assms(1,2) by (rule mount_with_replyip)
  have a: "app (run ?w0 [identityLoaded u]) =
      initialApp\<lparr>apiBaseUrl := url, user := Some u, currentPage := adminCreateTask\<rparr>"
    unfolding m using assms(3) by (simp add: identityThen_def initialApp_def)
  have p: "pendingIdentity (run ?w0 [identityLoaded u]) = 0"
    unfolding m by simp
  have b: "app (run ?w0 [identityLoaded u, navItemClick myTasks]) =
      initialApp\<lparr>apiBaseUrl := url, user := Some u\<rparr>"
    using a p assms(3)
    by (simp add: itemsToShow_def handleNavigate_def initialApp_def)
  have q: "pendingIdentity (run ?w0 [identityLoaded u, navItemClick myTasks]) = 0"
    using a p assms(3) by (simp add: itemsToShow_def initialApp_def)
  have d: "redirectDone (run ?w0 [identityLoaded u, navItemClick myTasks])"
    using b q by (simp add: redirectDone_def initialApp_def)
  have later: "currentPage (app (run ?w0 ([identityLoaded u, navItemClick myTasks] @ evs)))
      \<noteq> adminCreateTask" if "navItemClick adminCreateTask \<notin> set evs"
    using redirectDone_run [OF d that] unfolding run_append by (simp add: redirectDone_def)
  have c: "app (run ?w0 [identityLoaded u']) =
      initialApp\<lparr>apiBaseUrl := url, user := Some u'\<rparr>"
    unfolding m using assms(4) by (simp add: identityThen_def initialApp_def)
  have c1: "calls ?w0 = [fetchUserData]"
    unfolding m by simp
  have c2: "pendingIdentity ?w0 = 1"
    unfolding m by simp
  have c3: "currentPage (app ?w0) = myTasks"
    unfolding m by (simp add: initialApp_def)
  have c4: "currentPage (app (run ?w0 [identityLoaded u])) = adminCreateTask"
    unfolding a by simp
  have c5: "renderPage (app (run ?w0 [identityLoaded u])) = PageAdminCreateTask"
    unfolding a by (simp add: renderPage_def initialApp_def)
  have c6: "currentPage (app (run ?w0 [identityLoaded u, navItemClick myTasks])) = myTasks"
    unfolding b by (simp add: initialApp_def)
  have c7: "renderPage (app (run ?w0 [identityLoaded u, navItemClick myTasks])) = PageMyTasks"
    unfolding b by (simp add: renderPage_def initialApp_def)
  have c9: "currentPage (app (run ?w0 [identityLoaded u'])) = myTasks"
    unfolding c by (simp add: initialApp_def)
  have c10: "renderPage (app (run ?w0 [identityLoaded u'])) = PageMyTasks"
    unfolding c by (simp add: renderPage_def initialApp_def)
  from c1 c2 c3 c4 c5 c6 c7 later c9 c10 show ?thesis
    by blast
qed

theorem admin_redirect_is_one_time_witness:
  "currentPage (app (run (mount exampleLaunch True) [identityLoaded exampleAdmin]))
     = adminCreateTask
   \<and> renderPage (app (run (mount exampleLaunch True)
        [identityLoaded exampleAdmin, navItemClick myTasks])) = PageMyTasks
   \<and> currentPage (app (run (mount exampleLaunch True)
        ([identityLoaded exampleAdmin, navItemClick myTasks]
         @ [identityLoaded exampleAdmin, backButtonClick, navItemClick myGroups,
            identityLoaded exampleAdmin]))) \<noteq> adminCreateTask
   \<and> renderPage (app (run (mount exampleLaunch True) [identityLoaded exampleUser]))
       = PageMyTasks"
proof -
  have l: "map_of [(''replyip'', ''https://api.example'')] ''replyip''
      = Some ''https://api.example''"
    by simp
  have n: "''https://api.example'' \<noteq> []"
    by simp
  have ra: "role exampleAdmin = admin_role"
    by (simp add: exampleAdmin_def)
  have ru: "role exampleUser = user_role"
    by (simp add: exampleUser_def)
  have e: "navItemClick adminCreateTask
      \<notin> set [identityLoaded exampleAdmin, backButtonClick, navItemClick myGroups,
              identityLoaded exampleAdmin]"
    by simp
  from admin_redirect_is_one_time [OF l n ra ru, of True
         "[identityLoaded exampleAdmin, backButtonClick, navItemClick myGroups,
           identityLoaded exampleAdmin]"] e
  show ?thesis unfolding exampleLaunch_def by blast
qed

section \<open>Validation of the task form\<close>

lemma handleSubmit_missing_field:
  assumes "\<not> truthy (fromEntries entries ''title'') \<or> \<not> truthy (fromEntries entries ''project'')
     \<or> \<not> truthy (fromEntries entries ''group'') \<or> \<not> truthy (fromEntries entries ''assignee'')"
  shows "handleSubmit entries c =
           (c\<lparr>isLoading := False, formError := Some requiredFieldsMessage\<rparr>, [])"
  using assms by (auto simp: handleSubmit_def Let_def)

text \<open>
  Claim C9. For every submission in which one of \<^verbatim>\<open>title\<close>, \<^verbatim>\<open>project\<close>, \<^verbatim>\<open>group\<close>,
  \<^verbatim>\<open>assignee\<close> is missing or empty, \<^verbatim>\<open>handleSubmit\<close> issues no request and, before it
  returns, sets the form's error to the required-fields message (which is not empty, so
  it is shown) and \<^verbatim>\<open>isLoading\<close> back to false. In the application, submitting such a
  form adds no request to those issued and leaves no creation pending.
\<close>

theorem invalid_task_form_never_reaches_gateway:
  assumes "\<not> truthy (fromEntries entries ''title'') \<or> \<not> truthy (fromEntries entries ''project'')
     \<or> \<not> truthy (fromEntries entries ''group'') \<or> \<not> truthy (fromEntries entries ''assignee'')"
  shows "snd (handleSubmit entries c) = []
     \<and> formError (fst (handleSubmit entries c)) = Some requiredFieldsMessage
     \<and> truthy (formError (fst (handleSubmit entries c)))
     \<and> isLoading (fst (handleSubmit entries c)) = False
     \<and> calls (step w (submitTaskForm entries)) = calls w
     \<and> pendingTaskCreated (step w (submitTaskForm entries)) = pendingTaskCreated w"
proof -
  have h: "handleSubmit entries c' =
      (c'\<lparr>isLoading := False, formError := Some requiredFieldsMessage\<rparr>, [])" for c'
    using assms by (rule handleSubmit_missing_field)
  have w: "handle (submitTaskForm entries) w = w"
    by (simp add: h)
  show ?thesis
    by (simp add: h requiredFieldsMessage_nonempty step_def w)
qed

theorem invalid_task_form_never_reaches_gateway_witness:
  "\<not> truthy (fromEntries
        [(''title'', ''Login module''), (''project'', ''Core App''), (''group'', ''g-devs-1''),
         (''assignee'', [])] ''assignee'')
   \<and> handleSubmit
        [(''title'', ''Login module''), (''project'', ''Core App''), (''group'', ''g-devs-1''),
         (''assignee'', [])] \<lparr>isLoading = False, formError = None\<rparr>
      = (\<lparr>isLoading = False, formError = Some requiredFieldsMessage\<rparr>, [])"
proof -
  have a: "\<not> truthy (fromEntries
        [(''title'', ''Login module''), (''project'', ''Core App''), (''group'', ''g-devs-1''),
         (''assignee'', [])] ''assignee'')"
    by (simp add: fromEntries_def)
  from invalid_task_form_never_reaches_gateway
         [of "[(''title'', ''Login module''), (''project'', ''Core App''),
               (''group'', ''g-devs-1''), (''assignee'', [])]"
             "\<lparr>isLoading = False, formError = None\<rparr>"] a
  have "snd (handleSubmit
        [(''title'', ''Login module''), (''project'', ''Core App''), (''group'', ''g-devs-1''),
         (''assignee'', [])] \<lparr>isLoading = False, formError = None\<rparr>) = []
     \<and> formError (fst (handleSubmit
        [(''title'', ''Login module''), (''project'', ''Core App''), (''group'', ''g-devs-1''),
         (''assignee'', [])] \<lparr>isLoading = False, formError = None\<rparr>)) = Some requiredFieldsMessage
     \<and> isLoading (fst (handleSubmit
        [(''title'', ''Login module''), (''project'', ''Core App''), (''group'', ''g-devs-1''),
         (''assignee'', [])] \<lparr>isLoading = False, formError = None\<rparr>)) = False"
    by blast
  then show ?thesis
    using a by (cases "handleSubmit
        [(''title'', ''Login module''), (''project'', ''Core App''), (''group'', ''g-devs-1''),
         (''assignee'', [])] \<lparr>isLoading = False, formError = None\<rparr>") (auto)
qed

end
